theory Spec2Isabelle
  imports Main "HOL-Library.AList" "HOL-Library.Sublist"
begin

section \<open>The room store of app.py\<close>

text \<open>
  The chat server keeps one global dictionary \<open>active_rooms\<close>, from a room id to a room:
  \<^verbatim>\<open>{room_id: {'users': {sid: username}, 'messages': [], 'video_call': {'active': bool, 'participants': []}}}\<close>
  Connection ids, room ids, user names and time stamps are Python strings. A room's
  \<open>users\<close> dictionary is kept as an association list in insertion order, because
  \<open>list(users.values())\<close> is sent to clients: assignment is \<open>AList.update\<close> (an existing key
  keeps its place, a new one goes last), \<open>del\<close> is \<open>AList.delete\<close>. The outer dictionary is
  only looked up, assigned and deleted from, so it is a map.
\<close>

type_synonym sid = string
type_synonym room_id = string
type_synonym timestamp = string

subsection \<open>Payload values and string methods\<close>

text \<open>
  A field of an event payload is any JSON value, as Python holds it: \<open>None\<close>, a bool,
  an int, a float (\<open>Py_float m e\<close> is \<open>m * 2 ** e\<close>), a str, a list or a dict.
\<close>

datatype pyval =
    Py_none
  | Py_bool bool
  | Py_int int
  | Py_float int int
  | Py_str string
  | Py_list "pyval list"
  | Py_dict "(string \<times> pyval) list"

text \<open>\<open>type(v).__name__\<close>, \<open>bool(v)\<close> and \<open>len(v)\<close>.\<close>

fun type_name :: "pyval \<Rightarrow> string" where
  "type_name Py_none = ''NoneType''"
| "type_name (Py_bool b) = ''bool''"
| "type_name (Py_int i) = ''int''"
| "type_name (Py_float m e) = ''float''"
| "type_name (Py_str s) = ''str''"
| "type_name (Py_list vs) = ''list''"
| "type_name (Py_dict kvs) = ''dict''"

fun truthy :: "pyval \<Rightarrow> bool" where
  "truthy Py_none = False"
| "truthy (Py_bool b) = b"
| "truthy (Py_int i) = (i \<noteq> 0)"
| "truthy (Py_float m e) = (m \<noteq> 0)"
| "truthy (Py_str s) = (s \<noteq> [])"
| "truthy (Py_list vs) = (vs \<noteq> [])"
| "truthy (Py_dict kvs) = (kvs \<noteq> [])"

text \<open>
  The two exceptions that a handler body can raise on such values, and the text that
  \<open>str(e)\<close> gives for them.
\<close>

datatype exn = AttributeError string string | TypeError_no_len string

definition quoted :: "string \<Rightarrow> string" where
  "quoted s = [CHR 0x27] @ s @ [CHR 0x27]"

fun str_exn :: "exn \<Rightarrow> string" where
  "str_exn (AttributeError tn attr) = quoted tn @ '' object has no attribute '' @ quoted attr"
| "str_exn (TypeError_no_len tn) = ''object of type '' @ quoted tn @ '' has no len()''"

fun py_len :: "pyval \<Rightarrow> exn + nat" where
  "py_len (Py_str s) = Inr (length s)"
| "py_len (Py_list vs) = Inr (length vs)"
| "py_len (Py_dict kvs) = Inr (length kvs)"
| "py_len v = Inl (TypeError_no_len (type_name v))"

text \<open>
  \<open>str.strip()\<close>, \<open>str.upper()\<close> and \<open>str.lower()\<close> belong to Python, not to app.py: which
  characters they strip and how they map letters is fixed by the Unicode tables of the
  interpreter. The handlers take the three methods as a parameter \<open>py\<close>, and nothing is
  assumed about them.
\<close>

record str_methods =
  str_strip :: "string \<Rightarrow> string"
  str_upper :: "string \<Rightarrow> string"
  str_lower :: "string \<Rightarrow> string"

text \<open>\<open>data.get(key, default)\<close>: \<open>None\<close> is a payload without the key.\<close>

definition get_default :: "'a option \<Rightarrow> 'a \<Rightarrow> 'a" where
  "get_default field d = (case field of None \<Rightarrow> d | Some v \<Rightarrow> v)"

text \<open>\<open>v.strip()\<close>: only a str has the method.\<close>

definition val_strip :: "str_methods \<Rightarrow> pyval \<Rightarrow> exn + string" where
  "val_strip py v =
     (case v of Py_str s \<Rightarrow> Inr (str_strip py s) | _ \<Rightarrow> Inl (AttributeError (type_name v) ''strip''))"

text \<open>\<open>data.get('room_id', '').strip().upper()\<close>, the first line of every room handler.\<close>

definition norm_room_id :: "str_methods \<Rightarrow> pyval option \<Rightarrow> exn + room_id" where
  "norm_room_id py field =
     (case val_strip py (get_default field (Py_str '''')) of
        Inl e \<Rightarrow> Inl e
      | Inr stripped \<Rightarrow> Inr (str_upper py stripped))"

subsection \<open>Rooms\<close>

text \<open>
  The three shapes of an entry of \<open>messages\<close>, by its \<open>'type'\<close> key:
  \<open>'system'\<close> (username is the literal \<open>'System'\<close>; message, timestamp),
  \<open>'text'\<close> (username, message, timestamp, sender_id) and
  \<open>'voice'\<close> (username, audio_data, duration, timestamp, sender_id).
\<close>

datatype message =
    System_msg string timestamp
  | Text_msg string string timestamp sid
  | Voice_msg string pyval pyval timestamp sid

record video_call =
  active :: bool
  participants :: "sid list"

record room =
  users :: "(sid \<times> string) list"
  messages :: "message list"
  video_call :: video_call

text \<open>
  Besides \<open>active_rooms\<close> the handlers use Flask-SocketIO's own room membership:
  \<open>join_room(room_id)\<close> and \<open>leave_room(room_id)\<close> enter and leave a broadcast room, and
  \<open>rooms()\<close> lists the broadcast rooms of the current connection. \<open>sio_rooms s sid\<close> is the
  set of broadcast rooms that connection \<open>sid\<close> is in; the transport puts a connection
  into the private room named by its sid when it connects.
\<close>

record state =
  active_rooms :: "room_id \<rightharpoonup> room"
  sio_rooms :: "sid \<Rightarrow> room_id set"

definition init_state :: state where
  "init_state = \<lparr>active_rooms = Map.empty, sio_rooms = (\<lambda>_. {})\<rparr>"

definition new_room :: room where
  "new_room = \<lparr>users = [], messages = [], video_call = \<lparr>active = False, participants = []\<rparr>\<rparr>"

subsection \<open>Outbound events\<close>

text \<open>
  \<open>emit(name, payload)\<close> without \<open>room\<close> goes to the connection being served;
  with \<open>room=r\<close> to every connection in broadcast room \<open>r\<close>; with \<open>skip_sid\<close> to all of them
  but one. \<open>To_peer v\<close> is an emit of a signalling handler with \<open>room=v\<close>, where \<open>v\<close> is
  the \<open>target_peer\<close> of the payload as it came.
\<close>

datatype target = To_sid sid | To_room room_id | To_room_skip room_id sid | To_peer pyval

datatype out_event =
    Room_created room_id
  | Error string
  | Room_joined room_id string "message list" "string list" bool
  | User_joined string timestamp "string list"
  | User_left string timestamp "string list"
  | Left_room room_id
  | New_message message
  | Video_call_started string sid timestamp
  | Existing_participants "(sid \<times> string) list"
  | User_joined_call sid string
  | User_left_call sid string
  | Video_call_ended
  | Webrtc_offer pyval sid
  | Webrtc_answer pyval sid
  | Webrtc_ice_candidate pyval sid

type_synonym emitted = "target \<times> out_event"

subsection \<open>Dictionary operations\<close>

text \<open>\<open>sid in users\<close> and \<open>users.get(sid, default)\<close>.\<close>

definition has_key :: "'k \<Rightarrow> ('k \<times> 'v) list \<Rightarrow> bool" where
  "has_key k al = (k \<in> set (map fst al))"

definition dict_get :: "('k \<times> 'v) list \<Rightarrow> 'k \<Rightarrow> 'v \<Rightarrow> 'v" where
  "dict_get al k d = (case map_of al k of None \<Rightarrow> d | Some v \<Rightarrow> v)"

text \<open>
  The guard \<open>room_id in active_rooms and request.sid in active_rooms[room_id]['users']\<close>
  together with the subscript \<open>active_rooms[room_id]['users'][request.sid]\<close> that follows
  it in the handlers: the room and the user name when the guard holds, \<open>None\<close> when
  it fails.
\<close>

definition lookup_member :: "state \<Rightarrow> room_id \<Rightarrow> sid \<Rightarrow> (room \<times> string) option" where
  "lookup_member s room_id sid =
     (case active_rooms s room_id of
        None \<Rightarrow> None
      | Some r \<Rightarrow> (case map_of (users r) sid of None \<Rightarrow> None | Some username \<Rightarrow> Some (r, username)))"

definition is_member :: "state \<Rightarrow> room_id \<Rightarrow> sid \<Rightarrow> bool" where
  "is_member s room_id sid = (lookup_member s room_id sid \<noteq> None)"

subsection \<open>Helper functions\<close>

text \<open>
  \<open>get_timestamp()\<close> reads the wall clock. A handler is given \<open>clock\<close>, and its \<open>k\<close>-th
  call of \<open>get_timestamp()\<close> returns \<open>clock k\<close>.

  \<open>generate_room_id()\<close> draws a random id; \<open>handle_create_room\<close> is given the list of
  its successive results.
\<close>

definition set_room :: "room_id \<Rightarrow> room \<Rightarrow> state \<Rightarrow> state" where
  "set_room room_id r s = s\<lparr>active_rooms := (active_rooms s)(room_id \<mapsto> r)\<rparr>"

definition del_room :: "room_id \<Rightarrow> state \<Rightarrow> state" where
  "del_room room_id s = s\<lparr>active_rooms := (active_rooms s)(room_id := None)\<rparr>"

definition add_system_message :: "room_id \<Rightarrow> string \<Rightarrow> timestamp \<Rightarrow> state \<Rightarrow> state" where
  "add_system_message room_id message ts s =
     (case active_rooms s room_id of
        None \<Rightarrow> s
      | Some r \<Rightarrow> set_room room_id (r\<lparr>messages := messages r @ [System_msg message ts]\<rparr>) s)"

definition set_participants :: "sid list \<Rightarrow> room \<Rightarrow> room" where
  "set_participants ps r = r\<lparr>video_call := (video_call r)\<lparr>participants := ps\<rparr>\<rparr>"

definition set_active :: "bool \<Rightarrow> room \<Rightarrow> room" where
  "set_active b r = r\<lparr>video_call := (video_call r)\<lparr>active := b\<rparr>\<rparr>"

definition sio_join :: "sid \<Rightarrow> room_id \<Rightarrow> state \<Rightarrow> state" where
  "sio_join sid room_id s = s\<lparr>sio_rooms := (sio_rooms s)(sid := insert room_id (sio_rooms s sid))\<rparr>"

definition sio_leave :: "sid \<Rightarrow> room_id \<Rightarrow> state \<Rightarrow> state" where
  "sio_leave sid room_id s = s\<lparr>sio_rooms := (sio_rooms s)(sid := sio_rooms s sid - {room_id})\<rparr>"

text \<open>
  \<open>rooms()\<close> returns the broadcast rooms of the connection as a list, in an order that
  app.py does not control. \<open>handle_disconnect\<close> is given that list; \<open>rooms_result\<close> says
  which lists \<open>rooms()\<close> can return.
\<close>

definition rooms_result :: "state \<Rightarrow> sid \<Rightarrow> room_id list \<Rightarrow> bool" where
  "rooms_result s sid rooms = (set rooms = sio_rooms s sid \<and> distinct rooms)"

text \<open>
  A handler body runs inside \<open>try\<close>; \<open>except Exception as e\<close> emits \<open>error\<close> with the
  handler's own label and \<open>str(e)\<close> to the caller. Every statement that can raise comes
  before the first assignment to the store, so the store is then as the handler found it.
\<close>

definition try_except :: "string \<Rightarrow> state \<Rightarrow> sid \<Rightarrow> exn + (state \<times> emitted list) \<Rightarrow> state \<times> emitted list" where
  "try_except label s sid body =
     (case body of
        Inl e \<Rightarrow> (s, [(To_sid sid, Error (label @ str_exn e))])
      | Inr result \<Rightarrow> result)"

subsection \<open>Connection handlers\<close>

text \<open>
  The body of the loop of \<open>handle_disconnect\<close> for a room id that is in \<open>active_rooms\<close>;
  \<open>t1\<close> and \<open>t2\<close> are its two clock readings.
\<close>

definition disconnect_room :: "sid \<Rightarrow> timestamp \<Rightarrow> timestamp \<Rightarrow> room_id \<Rightarrow> room \<Rightarrow> state \<Rightarrow> state \<times> emitted list" where
  "disconnect_room sid t1 t2 room_id r s =
     (let username = dict_get (users r) sid ''Unknown User'';
          in_call = (sid \<in> set (participants (video_call r)));
          r1 = (if in_call then set_participants (remove1 sid (participants (video_call r))) r else r);
          e1 = (if in_call then [(To_room room_id, User_left_call sid username)] else []);
          r2 = (if has_key sid (users r1) then r1\<lparr>users := AList.delete sid (users r1)\<rparr> else r1);
          s1 = set_room room_id r2 s;
          s2 = add_system_message room_id (username @ '' has left the room'') t1 s1;
          e2 = [(To_room room_id, User_left username t2 (map snd (users r2)))];
          s3 = (if users r2 = [] then del_room room_id s2 else s2)
      in (s3, e1 @ e2))"

fun disconnect_loop :: "sid \<Rightarrow> (nat \<Rightarrow> timestamp) \<Rightarrow> nat \<Rightarrow> room_id list \<Rightarrow> state \<Rightarrow> state \<times> emitted list" where
  "disconnect_loop sid clock k [] s = (s, [])"
| "disconnect_loop sid clock k (room_id # rest) s =
     (case active_rooms s room_id of
        None \<Rightarrow> disconnect_loop sid clock k rest s
      | Some r \<Rightarrow>
          (let (s1, e1) = disconnect_room sid (clock k) (clock (k + 1)) room_id r s;
               (s2, e2) = disconnect_loop sid clock (k + 2) rest s1
           in (s2, e1 @ e2)))"

text \<open>\<open>rooms\<close> is what \<open>rooms()\<close> returns. The handler has no \<open>try\<close>, and nothing in it raises.\<close>

definition handle_disconnect :: "state \<Rightarrow> sid \<Rightarrow> (nat \<Rightarrow> timestamp) \<Rightarrow> room_id list \<Rightarrow> state \<times> emitted list" where
  "handle_disconnect s sid clock rooms =
     (let user_rooms = filter (\<lambda>room. room \<noteq> sid) rooms
      in disconnect_loop sid clock 0 user_rooms s)"

text \<open>
  \<open>None\<close>: every draw was already a key of \<open>active_rooms\<close>, the \<open>while\<close> loop has not
  ended within the draws given. The user name is only printed.
\<close>

definition handle_create_room :: "state \<Rightarrow> sid \<Rightarrow> room_id list \<Rightarrow> pyval option \<Rightarrow> (state \<times> emitted list) option" where
  "handle_create_room s sid draws username_field =
     (case find (\<lambda>room_id. active_rooms s room_id = None) draws of
        None \<Rightarrow> None
      | Some room_id \<Rightarrow> Some (set_room room_id new_room s, [(To_sid sid, Room_created room_id)]))"

definition handle_join_room :: "str_methods \<Rightarrow> state \<Rightarrow> sid \<Rightarrow> (nat \<Rightarrow> timestamp) \<Rightarrow> pyval option \<Rightarrow> pyval option \<Rightarrow> state \<times> emitted list" where
  "handle_join_room py s sid clock room_id_field username_field =
     try_except ''Failed to join room: '' s sid
      (case norm_room_id py room_id_field of
         Inl e \<Rightarrow> Inl e
       | Inr room_id \<Rightarrow>
          (case val_strip py (get_default username_field (Py_str ''Anonymous'')) of
             Inl e \<Rightarrow> Inl e
           | Inr username \<Rightarrow> Inr
              (if room_id = [] then (s, [(To_sid sid, Error ''Room ID is required'')])
               else if username = [] then (s, [(To_sid sid, Error ''Username is required'')])
               else
                (let s1 = (case active_rooms s room_id of None \<Rightarrow> set_room room_id new_room s | Some _ \<Rightarrow> s);
                     r = (case active_rooms s room_id of None \<Rightarrow> new_room | Some r0 \<Rightarrow> r0);
                     existing_usernames = map (str_lower py) (map snd (users r))
                 in if str_lower py username \<in> set existing_usernames
                    then (s1, [(To_sid sid, Error ''Username already taken in this room'')])
                    else
                     (let s2 = sio_join sid room_id s1;
                          r1 = r\<lparr>users := AList.update sid username (users r)\<rparr>;
                          s3 = set_room room_id r1 s2;
                          e1 = (To_sid sid, Room_joined room_id username (messages r1) (map snd (users r1))
                                  (active (video_call r1)));
                          s4 = add_system_message room_id (username @ '' has joined the room'') (clock 0) s3;
                          e2 = (To_room_skip room_id sid, User_joined username (clock 1) (map snd (users r1)))
                      in (s4, [e1, e2]))))))"

definition handle_leave_room :: "str_methods \<Rightarrow> state \<Rightarrow> sid \<Rightarrow> (nat \<Rightarrow> timestamp) \<Rightarrow> pyval option \<Rightarrow> state \<times> emitted list" where
  "handle_leave_room py s sid clock room_id_field =
     try_except ''Failed to leave room: '' s sid
      (case norm_room_id py room_id_field of
         Inl e \<Rightarrow> Inl e
       | Inr room_id \<Rightarrow> Inr
          (case lookup_member s room_id sid of
             None \<Rightarrow> (s, [])
           | Some (r, username) \<Rightarrow>
              (let in_call = (sid \<in> set (participants (video_call r)));
                   r1 = (if in_call then set_participants (remove1 sid (participants (video_call r))) r else r);
                   e1 = (if in_call then [(To_room room_id, User_left_call sid username)] else []);
                   r2 = r1\<lparr>users := AList.delete sid (users r1)\<rparr>;
                   s1 = sio_leave sid room_id (set_room room_id r2 s);
                   s2 = add_system_message room_id (username @ '' has left the room'') (clock 0) s1;
                   e2 = [(To_room room_id, User_left username (clock 1) (map snd (users r2)))];
                   s3 = (if users r2 = [] then del_room room_id s2 else s2);
                   e3 = [(To_sid sid, Left_room room_id)]
               in (s3, e1 @ e2 @ e3))))"

subsection \<open>Message handlers\<close>

definition handle_send_message :: "str_methods \<Rightarrow> state \<Rightarrow> sid \<Rightarrow> (nat \<Rightarrow> timestamp) \<Rightarrow> pyval option \<Rightarrow> pyval option \<Rightarrow> state \<times> emitted list" where
  "handle_send_message py s sid clock room_id_field message_field =
     try_except ''Failed to send message: '' s sid
      (case norm_room_id py room_id_field of
         Inl e \<Rightarrow> Inl e
       | Inr room_id \<Rightarrow>
          (case val_strip py (get_default message_field (Py_str '''')) of
             Inl e \<Rightarrow> Inl e
           | Inr message_text \<Rightarrow> Inr
              (if message_text = [] then (s, [])
               else case lookup_member s room_id sid of
                 None \<Rightarrow> (s, [(To_sid sid, Error ''You are not in this room'')])
               | Some (r, username) \<Rightarrow>
                  (let message_obj = Text_msg username message_text (clock 0) sid;
                       s1 = set_room room_id (r\<lparr>messages := messages r @ [message_obj]\<rparr>) s
                   in (s1, [(To_room room_id, New_message message_obj)])))))"

text \<open>
  The ceiling of \<open>handle_send_voice_note\<close>, and the \<open>max_http_buffer_size\<close> (also
  \<open>MAX_CONTENT_LENGTH\<close>) that the transport is configured with.
\<close>

definition max_voice_note_size :: nat where
  "max_voice_note_size = 5 * 1024 * 1024"


text \<open>\<open>data.get('audio_data')\<close> is \<open>None\<close> without the key; \<open>data.get('duration', 0)\<close>.\<close>

definition handle_send_voice_note :: "str_methods \<Rightarrow> state \<Rightarrow> sid \<Rightarrow> (nat \<Rightarrow> timestamp) \<Rightarrow> pyval option \<Rightarrow> pyval option \<Rightarrow> pyval option \<Rightarrow> state \<times> emitted list" where
  "handle_send_voice_note py s sid clock room_id_field audio_field duration_field =
     try_except ''Failed to send voice note: '' s sid
      (case norm_room_id py room_id_field of
         Inl e \<Rightarrow> Inl e
       | Inr room_id \<Rightarrow>
          (let audio_data = get_default audio_field Py_none;
               duration = get_default duration_field (Py_int 0)
           in if \<not> truthy audio_data then Inr (s, [(To_sid sid, Error ''No audio data received'')])
              else case lookup_member s room_id sid of
                None \<Rightarrow> Inr (s, [(To_sid sid, Error ''You are not in this room'')])
              | Some (r, username) \<Rightarrow>
                 (case py_len audio_data of
                    Inl e \<Rightarrow> Inl e
                  | Inr audio_size \<Rightarrow> Inr
                     (if audio_size > max_voice_note_size
                      then (s, [(To_sid sid, Error ''Voice note too large (max 5MB)'')])
                      else
                       (let message_obj = Voice_msg username audio_data duration (clock 0) sid;
                            s1 = set_room room_id (r\<lparr>messages := messages r @ [message_obj]\<rparr>) s
                        in (s1, [(To_room room_id, New_message message_obj)]))))))"

subsection \<open>Video call handlers\<close>

definition handle_start_video_call :: "str_methods \<Rightarrow> state \<Rightarrow> sid \<Rightarrow> (nat \<Rightarrow> timestamp) \<Rightarrow> pyval option \<Rightarrow> state \<times> emitted list" where
  "handle_start_video_call py s sid clock room_id_field =
     try_except ''Failed to start video call: '' s sid
      (case norm_room_id py room_id_field of
         Inl e \<Rightarrow> Inl e
       | Inr room_id \<Rightarrow> Inr
          (case lookup_member s room_id sid of
             None \<Rightarrow> (s, [(To_sid sid, Error ''You are not in this room'')])
           | Some (r, username) \<Rightarrow>
              (let r1 = set_active True r;
                   r2 = set_participants (participants (video_call r1) @ [sid]) r1;
                   s1 = set_room room_id r2 s;
                   s2 = add_system_message room_id (username @ '' started a video call'') (clock 0) s1
               in (s2, [(To_room room_id, Video_call_started username sid (clock 1))]))))"

definition handle_join_video_call :: "str_methods \<Rightarrow> state \<Rightarrow> sid \<Rightarrow> (nat \<Rightarrow> timestamp) \<Rightarrow> pyval option \<Rightarrow> state \<times> emitted list" where
  "handle_join_video_call py s sid clock room_id_field =
     try_except ''Failed to join video call: '' s sid
      (case norm_room_id py room_id_field of
         Inl e \<Rightarrow> Inl e
       | Inr room_id \<Rightarrow> Inr
          (case lookup_member s room_id sid of
             None \<Rightarrow> (s, [(To_sid sid, Error ''You are not in this room'')])
           | Some (r, username) \<Rightarrow>
              (let r1 = (if sid \<notin> set (participants (video_call r))
                         then set_participants (participants (video_call r) @ [sid]) r else r);
                   s1 = set_room room_id r1 s;
                   other_participants =
                     List.map_filter
                       (\<lambda>pid. if pid \<noteq> sid then map_option (Pair pid) (map_of (users r1) pid) else None)
                       (participants (video_call r1));
                   e1 = (To_sid sid, Existing_participants other_participants);
                   e2 = (To_room_skip room_id sid, User_joined_call sid username);
                   s2 = add_system_message room_id (username @ '' joined the video call'') (clock 0) s1;
                   e3 = (To_room room_id, New_message (System_msg (username @ '' joined the video call'') (clock 1)))
               in (s2, [e1, e2, e3]))))"

definition handle_leave_video_call :: "str_methods \<Rightarrow> state \<Rightarrow> sid \<Rightarrow> (nat \<Rightarrow> timestamp) \<Rightarrow> pyval option \<Rightarrow> state \<times> emitted list" where
  "handle_leave_video_call py s sid clock room_id_field =
     try_except ''Failed to leave video call: '' s sid
      (case norm_room_id py room_id_field of
         Inl e \<Rightarrow> Inl e
       | Inr room_id \<Rightarrow> Inr
          (case lookup_member s room_id sid of
             None \<Rightarrow> (s, [])
           | Some (r, username) \<Rightarrow>
              (let r1 = (if sid \<in> set (participants (video_call r))
                         then set_participants (remove1 sid (participants (video_call r))) r else r);
                   ended = (length (participants (video_call r1)) = 0);
                   r2 = (if ended then set_active False r1 else r1);
                   s1 = set_room room_id r2 s;
                   s2 = (if ended then add_system_message room_id ''Video call ended'' (clock 0) s1 else s1);
                   e1 = (if ended then [(To_room room_id, Video_call_ended)] else []);
                   k = (if ended then 1 else 0);
                   e2 = [(To_room room_id, User_left_call sid username)];
                   s3 = add_system_message room_id (username @ '' left the video call'') (clock k) s2;
                   e3 = [(To_room room_id, New_message (System_msg (username @ '' left the video call'') (clock (k + 1))))]
               in (s3, e1 @ e2 @ e3))))"

subsection \<open>WebRTC signalling handlers\<close>

text \<open>
  \<open>emit(..., room=target_peer)\<close>: the handlers pass \<open>data.get('target_peer')\<close> to the
  transport unexamined, and the payload as it came (\<open>None\<close> without the key). The store
  is not touched.
\<close>

definition handle_webrtc_offer :: "state \<Rightarrow> sid \<Rightarrow> pyval option \<Rightarrow> pyval option \<Rightarrow> state \<times> emitted list" where
  "handle_webrtc_offer s sid target_peer offer =
     (s, [(To_peer (get_default target_peer Py_none), Webrtc_offer (get_default offer Py_none) sid)])"

definition handle_webrtc_answer :: "state \<Rightarrow> sid \<Rightarrow> pyval option \<Rightarrow> pyval option \<Rightarrow> state \<times> emitted list" where
  "handle_webrtc_answer s sid target_peer answer =
     (s, [(To_peer (get_default target_peer Py_none), Webrtc_answer (get_default answer Py_none) sid)])"

definition handle_ice_candidate :: "state \<Rightarrow> sid \<Rightarrow> pyval option \<Rightarrow> pyval option \<Rightarrow> state \<times> emitted list" where
  "handle_ice_candidate s sid target_peer candidate =
     (s, [(To_peer (get_default target_peer Py_none), Webrtc_ice_candidate (get_default candidate Py_none) sid)])"

subsection \<open>One inbound event\<close>

text \<open>
  An inbound event with the fields of its payload dictionary (\<open>None\<close>: the key is absent).
  \<open>Disconnect\<close> carries the list that \<open>rooms()\<close> returns in the handler, \<open>Create_room\<close> the
  draws of \<open>generate_room_id()\<close>. On connect the transport puts the connection into its
  private room (\<open>handle_connect\<close> only prints); after \<open>handle_disconnect\<close> returns it takes
  the connection out of all its broadcast rooms.
\<close>

datatype in_event =
    Connect
  | Disconnect "room_id list"
  | Create_room "pyval option" "room_id list"
  | Join_room "pyval option" "pyval option"
  | Leave_room "pyval option"
  | Send_message "pyval option" "pyval option"
  | Send_voice_note "pyval option" "pyval option" "pyval option"
  | Start_video_call "pyval option"
  | Join_video_call "pyval option"
  | Leave_video_call "pyval option"
  | Signal_offer "pyval option" "pyval option"
  | Signal_answer "pyval option" "pyval option"
  | Signal_ice_candidate "pyval option" "pyval option"

definition connected :: "sid \<Rightarrow> state \<Rightarrow> state" where
  "connected sid s = s\<lparr>sio_rooms := (sio_rooms s)(sid := {sid})\<rparr>"

fun step :: "str_methods \<Rightarrow> state \<Rightarrow> sid \<Rightarrow> (nat \<Rightarrow> timestamp) \<Rightarrow> in_event \<Rightarrow> (state \<times> emitted list) option" where
  "step py s sid clock Connect = Some (connected sid s, [])"
| "step py s sid clock (Disconnect rooms) =
     (let (s1, out) = handle_disconnect s sid clock rooms
      in Some (s1\<lparr>sio_rooms := (sio_rooms s1)(sid := {})\<rparr>, out))"
| "step py s sid clock (Create_room username draws) = handle_create_room s sid draws username"
| "step py s sid clock (Join_room room_id username) = Some (handle_join_room py s sid clock room_id username)"
| "step py s sid clock (Leave_room room_id) = Some (handle_leave_room py s sid clock room_id)"
| "step py s sid clock (Send_message room_id message) =
     Some (handle_send_message py s sid clock room_id message)"
| "step py s sid clock (Send_voice_note room_id audio_data duration) =
     Some (handle_send_voice_note py s sid clock room_id audio_data duration)"
| "step py s sid clock (Start_video_call room_id) = Some (handle_start_video_call py s sid clock room_id)"
| "step py s sid clock (Join_video_call room_id) = Some (handle_join_video_call py s sid clock room_id)"
| "step py s sid clock (Leave_video_call room_id) = Some (handle_leave_video_call py s sid clock room_id)"
| "step py s sid clock (Signal_offer target_peer offer) = Some (handle_webrtc_offer s sid target_peer offer)"
| "step py s sid clock (Signal_answer target_peer answer) = Some (handle_webrtc_answer s sid target_peer answer)"
| "step py s sid clock (Signal_ice_candidate target_peer candidate) =
     Some (handle_ice_candidate s sid target_peer candidate)"

section \<open>Notions used in the properties\<close>

text \<open>
  The three str methods on ASCII text: for a string of ASCII characters they give what
  Python gives (the white space that \<open>strip\<close> removes there is 0x09 to 0x0D, 0x1C to
  0x1F and the blank; the case methods move the 26 letters). They stand for \<open>py\<close> in the
  concrete scenarios below, whose strings are all ASCII.
\<close>

definition is_space :: "char \<Rightarrow> bool" where
  "is_space c = (let n = (of_char c :: nat) in (9 \<le> n \<and> n \<le> 13) \<or> (28 \<le> n \<and> n \<le> 31) \<or> n = 32)"

definition ascii_strip :: "string \<Rightarrow> string" where
  "ascii_strip s = rev (dropWhile is_space (rev (dropWhile is_space s)))"

definition ascii_lowercase :: string where
  "ascii_lowercase = ''abcdefghijklmnopqrstuvwxyz''"

definition ascii_uppercase :: string where
  "ascii_uppercase = ''ABCDEFGHIJKLMNOPQRSTUVWXYZ''"

definition upper_char :: "char \<Rightarrow> char" where
  "upper_char c = (case map_of (zip ascii_lowercase ascii_uppercase) c of None \<Rightarrow> c | Some u \<Rightarrow> u)"

definition lower_char :: "char \<Rightarrow> char" where
  "lower_char c = (case map_of (zip ascii_uppercase ascii_lowercase) c of None \<Rightarrow> c | Some l \<Rightarrow> l)"

definition ascii :: str_methods where
  "ascii = \<lparr>str_strip = ascii_strip, str_upper = map upper_char, str_lower = map lower_char\<rparr>"

text \<open>
  A clock that stands at 12:00, and the store after connection \<open>A\<close> has connected and
  joined room \<open>X\<close> as alice, and after \<open>B\<close> has connected and joined it as bob.
\<close>

definition fixed_clock :: "nat \<Rightarrow> timestamp" where
  "fixed_clock k = ''12:00''"

definition alice_joined :: state where
  "alice_joined =
     fst (handle_join_room ascii (connected ''A'' init_state) ''A'' fixed_clock
            (Some (Py_str ''x'')) (Some (Py_str ''alice'')))"

definition both_joined :: state where
  "both_joined =
     fst (handle_join_room ascii (connected ''B'' alice_joined) ''B'' fixed_clock
            (Some (Py_str ''X'')) (Some (Py_str '' bob '')))"


fun is_create :: "in_event \<Rightarrow> bool" where
  "is_create (Create_room username draws) = True"
| "is_create _ = False"

text \<open>Every room in the store has a member.\<close>

definition rooms_nonempty :: "state \<Rightarrow> bool" where
  "rooms_nonempty s = (\<forall>room_id r. active_rooms s room_id = Some r \<longrightarrow> users r \<noteq> [])"

text \<open>
  \<open>no_new_empty s s'\<close>: a room that is in store \<open>s'\<close> without members was in store \<open>s\<close>
  under the same id, without members.
\<close>

definition no_new_empty :: "state \<Rightarrow> state \<Rightarrow> bool" where
  "no_new_empty s s' =
     (\<forall>room_id r'. active_rooms s' room_id = Some r' \<longrightarrow> users r' = [] \<longrightarrow>
        (\<exists>r. active_rooms s room_id = Some r \<and> users r = []))"

text \<open>The store \<open>alice_joined\<close> with a room \<open>ABC123\<close>, as \<open>create_room\<close> makes it, beside room \<open>X\<close>.\<close>

definition empty_beside :: state where
  "empty_beside = set_room ''ABC123'' new_room alice_joined"



text \<open>The store after alice, in room \<open>X\<close> with bob, has started a video call.\<close>

definition call_started :: state where
  "call_started = fst (handle_start_video_call ascii both_joined ''A'' fixed_clock (Some (Py_str ''X'')))"

text \<open>The store after alice, alone in room \<open>X\<close> and in no call, has sent \<open>leave_video_call\<close>.\<close>

definition left_call_once :: state where
  "left_call_once = fst (handle_leave_video_call ascii alice_joined ''A'' fixed_clock (Some (Py_str ''X'')))"

text \<open>
  The store after a connection whose sid has no lower-case letter has connected and
  joined the room whose code is that sid.
\<close>

definition own_room_joined :: state where
  "own_room_joined =
     fst (handle_join_room ascii (connected ''Q7XK2M9ZP4TB8WLC'' init_state) ''Q7XK2M9ZP4TB8WLC'' fixed_clock
            (Some (Py_str ''Q7XK2M9ZP4TB8WLC'')) (Some (Py_str ''alice'')))"

text \<open>
  The \<open>new_message\<close> payloads among the events emitted to broadcast room \<open>room_id\<close>,
  in the order of emission; every connection that is in the broadcast room receives them.
\<close>

fun new_message_to :: "room_id \<Rightarrow> emitted \<Rightarrow> message list" where
  "new_message_to room_id (To_room r, New_message m) = (if r = room_id then [m] else [])"
| "new_message_to room_id _ = []"

definition new_messages :: "room_id \<Rightarrow> emitted list \<Rightarrow> message list" where
  "new_messages room_id out = concat (map (new_message_to room_id) out)"


text \<open>A message without its time stamp, and the messages that a user wrote.\<close>

fun erase_ts :: "message \<Rightarrow> message" where
  "erase_ts (System_msg text ts) = System_msg text []"
| "erase_ts (Text_msg username text ts sender) = Text_msg username text [] sender"
| "erase_ts (Voice_msg username audio duration ts sender) = Voice_msg username audio duration [] sender"

fun is_user_msg :: "message \<Rightarrow> bool" where
  "is_user_msg (System_msg text ts) = False"
| "is_user_msg (Text_msg username text ts sender) = True"
| "is_user_msg (Voice_msg username audio duration ts sender) = True"

text \<open>
  \<open>extends h h' sent\<close>: history \<open>h'\<close> is \<open>h\<close> with entries appended; the messages \<open>sent\<close>
  are, up to their time stamps, a subsequence of the appended entries, and the user
  messages sent are exactly the user messages appended.
\<close>

definition extends :: "message list \<Rightarrow> message list \<Rightarrow> message list \<Rightarrow> bool" where
  "extends h h' sent =
     (\<exists>added. h' = h @ added \<and>
        subseq (map erase_ts sent) (map erase_ts added) \<and>
        filter is_user_msg sent = filter is_user_msg added)"




section \<open>Properties\<close>

subsection \<open>Concrete scenarios\<close>

lemmas string_defs =
  norm_room_id_def val_strip_def get_default_def ascii_def ascii_strip_def is_space_def
  upper_char_def lower_char_def ascii_lowercase_def ascii_uppercase_def

lemmas store_defs =
  set_room_def del_room_def add_system_message_def set_participants_def set_active_def
  sio_join_def sio_leave_def connected_def lookup_member_def is_member_def has_key_def
  dict_get_def new_room_def init_state_def try_except_def

lemma norm_X: "norm_room_id ascii (Some (Py_str ''X'')) = Inr ''X''"
  by (simp add: string_defs)

lemma norm_x: "norm_room_id ascii (Some (Py_str ''x'')) = Inr ''X''"
  by (simp add: string_defs)

lemma alice_joined_room:
  "active_rooms alice_joined ''X'' =
     Some \<lparr>users = [(''A'', ''alice'')],
           messages = [System_msg ''alice has joined the room'' ''12:00''],
           video_call = \<lparr>active = False, participants = []\<rparr>\<rparr>"
  by (simp add: alice_joined_def handle_join_room_def string_defs store_defs fixed_clock_def Let_def)

lemma alice_joined_other: "room_id \<noteq> ''X'' \<Longrightarrow> active_rooms alice_joined room_id = None"
  by (simp add: alice_joined_def handle_join_room_def string_defs store_defs fixed_clock_def Let_def)

lemma both_joined_room:
  "active_rooms both_joined ''X'' =
     Some \<lparr>users = [(''A'', ''alice''), (''B'', ''bob'')],
           messages = [System_msg ''alice has joined the room'' ''12:00'',
                       System_msg ''bob has joined the room'' ''12:00''],
           video_call = \<lparr>active = False, participants = []\<rparr>\<rparr>"
  by (simp add: both_joined_def handle_join_room_def alice_joined_room string_defs store_defs
      fixed_clock_def Let_def)

subsection \<open>Store updates\<close>

lemma active_rooms_set_room [simp]: "active_rooms (set_room room_id r s) = (active_rooms s)(room_id \<mapsto> r)"
  by (simp add: set_room_def)

lemma sio_rooms_set_room [simp]: "sio_rooms (set_room room_id r s) = sio_rooms s"
  by (simp add: set_room_def)

lemma active_rooms_del_room [simp]: "active_rooms (del_room room_id s) = (active_rooms s)(room_id := None)"
  by (simp add: del_room_def)

lemma sio_rooms_del_room [simp]: "sio_rooms (del_room room_id s) = sio_rooms s"
  by (simp add: del_room_def)

lemma active_rooms_sio_join [simp]: "active_rooms (sio_join sid room_id s) = active_rooms s"
  by (simp add: sio_join_def)

lemma active_rooms_sio_leave [simp]: "active_rooms (sio_leave sid room_id s) = active_rooms s"
  by (simp add: sio_leave_def)

lemma active_rooms_connected [simp]: "active_rooms (connected sid s) = active_rooms s"
  by (simp add: connected_def)

lemma active_rooms_add_system_message:
  "active_rooms (add_system_message room_id message ts s) =
     (case active_rooms s room_id of
        None \<Rightarrow> active_rooms s
      | Some r \<Rightarrow> (active_rooms s)(room_id \<mapsto> r\<lparr>messages := messages r @ [System_msg message ts]\<rparr>))"
  by (simp add: add_system_message_def split: option.splits)

lemma sio_rooms_add_system_message [simp]:
  "sio_rooms (add_system_message room_id message ts s) = sio_rooms s"
  by (simp add: add_system_message_def split: option.splits)

lemma lookup_member_Some:
  "lookup_member s room_id sid = Some (r, username) \<longleftrightarrow>
     active_rooms s room_id = Some r \<and> map_of (users r) sid = Some username"
  by (auto simp: lookup_member_def split: option.splits)



lemma users_set_participants [simp]: "users (set_participants ps r) = users r"
  by (simp add: set_participants_def)

lemma users_set_active [simp]: "users (set_active b r) = users r"
  by (simp add: set_active_def)

lemma messages_set_participants [simp]: "messages (set_participants ps r) = messages r"
  by (simp add: set_participants_def)

lemma messages_set_active [simp]: "messages (set_active b r) = messages r"
  by (simp add: set_active_def)

lemma video_call_set_participants [simp]:
  "video_call (set_participants ps r) = (video_call r)\<lparr>participants := ps\<rparr>"
  by (simp add: set_participants_def)

lemma video_call_set_active [simp]: "video_call (set_active b r) = (video_call r)\<lparr>active := b\<rparr>"
  by (simp add: set_active_def)


subsection \<open>Blank messages\<close>




subsection \<open>Oversized voice notes\<close>



subsection \<open>Operations by a connection that is not in the room\<close>




subsection \<open>Properties of the member lists of all rooms\<close>











subsection \<open>Rooms without members\<close>

lemma no_new_empty_refl: "no_new_empty s s"
  by (simp add: no_new_empty_def)

lemma no_new_empty_trans: "no_new_empty s s1 \<Longrightarrow> no_new_empty s1 s2 \<Longrightarrow> no_new_empty s s2"
  unfolding no_new_empty_def by blast

lemma no_new_empty_same: "active_rooms s' = active_rooms s \<Longrightarrow> no_new_empty s s'"
  by (simp add: no_new_empty_def)

lemma no_new_empty_send_message:
  "no_new_empty s (fst (handle_send_message py s sid clock rf mf))"
  unfolding no_new_empty_def
  by (auto simp: handle_send_message_def try_except_def Let_def lookup_member_Some
      split: option.splits if_splits sum.splits)

lemma no_new_empty_send_voice_note:
  "no_new_empty s (fst (handle_send_voice_note py s sid clock rf af df))"
  unfolding no_new_empty_def
  by (auto simp: handle_send_voice_note_def try_except_def Let_def lookup_member_Some
      split: option.splits if_splits sum.splits)

lemma no_new_empty_start_video_call:
  "no_new_empty s (fst (handle_start_video_call py s sid clock rf))"
  unfolding no_new_empty_def
  by (auto simp: handle_start_video_call_def try_except_def Let_def lookup_member_Some
      active_rooms_add_system_message split: option.splits if_splits sum.splits)

lemma no_new_empty_join_video_call:
  "no_new_empty s (fst (handle_join_video_call py s sid clock rf))"
  unfolding no_new_empty_def
  by (auto simp: handle_join_video_call_def try_except_def Let_def lookup_member_Some
      active_rooms_add_system_message split: option.splits if_splits sum.splits)

lemma no_new_empty_leave_video_call:
  "no_new_empty s (fst (handle_leave_video_call py s sid clock rf))"
  unfolding no_new_empty_def
  by (auto simp: handle_leave_video_call_def try_except_def Let_def lookup_member_Some
      active_rooms_add_system_message split: option.splits if_splits sum.splits)

lemma no_new_empty_leave_room:
  "no_new_empty s (fst (handle_leave_room py s sid clock rf))"
  unfolding no_new_empty_def
  by (auto simp: handle_leave_room_def try_except_def Let_def lookup_member_Some
      active_rooms_add_system_message split: option.splits if_splits sum.splits)

lemma no_new_empty_join_room:
  "no_new_empty s (fst (handle_join_room py s sid clock rf uf))"
  unfolding no_new_empty_def
  by (auto simp: handle_join_room_def try_except_def Let_def new_room_def
      active_rooms_add_system_message split: option.splits if_splits sum.splits)

lemma no_new_empty_disconnect_room:
  "active_rooms s room_id = Some r \<Longrightarrow> no_new_empty s (fst (disconnect_room sid t1 t2 room_id r s))"
  unfolding no_new_empty_def
  by (auto simp: disconnect_room_def Let_def has_key_def
      active_rooms_add_system_message split: option.splits if_splits)

lemma no_new_empty_disconnect_loop:
  "no_new_empty s (fst (disconnect_loop sid clock k rs s))"
proof (induction rs arbitrary: s k)
  case Nil
  show ?case by (simp add: no_new_empty_refl)
next
  case (Cons room_id rest)
  show ?case
  proof (cases "active_rooms s room_id")
    case None
    then show ?thesis using Cons by simp
  next
    case (Some r)
    have "no_new_empty s (fst (disconnect_room sid (clock k) (clock (k + 1)) room_id r s))"
      using Some by (rule no_new_empty_disconnect_room)
    moreover have "no_new_empty (fst (disconnect_room sid (clock k) (clock (k + 1)) room_id r s))
        (fst (disconnect_loop sid clock (k + 2) rest
                 (fst (disconnect_room sid (clock k) (clock (k + 1)) room_id r s))))"
      by (rule Cons.IH)
    ultimately have "no_new_empty s (fst (disconnect_loop sid clock (k + 2) rest
                 (fst (disconnect_room sid (clock k) (clock (k + 1)) room_id r s))))"
      by (rule no_new_empty_trans)
    then show ?thesis using Some by (simp add: split_def Let_def)
  qed
qed

lemma no_new_empty_step:
  assumes nc: "\<not> is_create ev" and st: "step py s sid clock ev = Some (s', out)"
  shows "no_new_empty s s'"
proof (cases ev)
  case Connect
  then show ?thesis using st by (auto intro: no_new_empty_same)
next
  case (Disconnect rooms)
  have "no_new_empty s (fst (handle_disconnect s sid clock rooms))"
    unfolding handle_disconnect_def Let_def by (rule no_new_empty_disconnect_loop)
  then show ?thesis using Disconnect st by (auto simp: no_new_empty_def split_def Let_def)
next
  case (Create_room username draws)
  then show ?thesis using nc by simp
next
  case (Join_room rf uf)
  then show ?thesis using no_new_empty_join_room [of s py sid clock rf uf] st by auto
next
  case (Leave_room rf)
  then show ?thesis using no_new_empty_leave_room [of s py sid clock rf] st by auto
next
  case (Send_message rf mf)
  then show ?thesis using no_new_empty_send_message [of s py sid clock rf mf] st by auto
next
  case (Send_voice_note rf af df)
  then show ?thesis using no_new_empty_send_voice_note [of s py sid clock rf af df] st by auto
next
  case (Start_video_call rf)
  then show ?thesis using no_new_empty_start_video_call [of s py sid clock rf] st by auto
next
  case (Join_video_call rf)
  then show ?thesis using no_new_empty_join_video_call [of s py sid clock rf] st by auto
next
  case (Leave_video_call rf)
  then show ?thesis using no_new_empty_leave_video_call [of s py sid clock rf] st by auto
next
  case (Signal_offer t p)
  then show ?thesis using st by (auto simp: handle_webrtc_offer_def no_new_empty_refl)
next
  case (Signal_answer t p)
  then show ?thesis using st by (auto simp: handle_webrtc_answer_def no_new_empty_refl)
next
  case (Signal_ice_candidate t p)
  then show ?thesis using st by (auto simp: handle_ice_candidate_def no_new_empty_refl)
qed

lemma rooms_nonempty_alice_joined: "rooms_nonempty alice_joined"
  unfolding rooms_nonempty_def
proof (intro allI impI)
  fix room_id r
  assume "active_rooms alice_joined room_id = Some r"
  then show "users r \<noteq> []"
    using alice_joined_room alice_joined_other [of room_id] by (cases "room_id = ''X''") auto
qed

lemma empty_beside_rooms:
  "active_rooms empty_beside ''ABC123'' = Some new_room"
  "active_rooms empty_beside ''X'' =
     Some \<lparr>users = [(''A'', ''alice'')],
           messages = [System_msg ''alice has joined the room'' ''12:00''],
           video_call = \<lparr>active = False, participants = []\<rparr>\<rparr>"
  by (simp_all add: empty_beside_def alice_joined_room)

lemma empty_beside_created:
  "handle_create_room alice_joined ''B'' [''X'', ''ABC123''] None =
     Some (empty_beside, [(To_sid ''B'', Room_created ''ABC123'')])"
  by (simp add: handle_create_room_def empty_beside_def alice_joined_room alice_joined_other)

text \<open>
  C5, as the code has it. No event other than \<open>create_room\<close> puts a room without
  members into the store: a room that is in the store without members after the event was
  there without members before it. So \<open>leave_room\<close> and \<open>disconnect\<close> delete a room in the
  same handler run that removes its last member, a join that fails stores nothing new,
  and when every room has a member this stays so until the next \<open>create_room\<close>.
  \<open>create_room\<close> itself stores a room whose \<open>users\<close> is empty, under an id that was free,
  and tells the caller that id.
\<close>

theorem rooms_keep_members:
  "(\<not> is_create ev \<longrightarrow> step py s sid clock ev = Some (s', out) \<longrightarrow>
      active_rooms s' room_id = Some r' \<longrightarrow> users r' = [] \<longrightarrow>
      (\<exists>r. active_rooms s room_id = Some r \<and> users r = [])) \<and>
   (\<not> is_create ev \<longrightarrow> step py s sid clock ev = Some (s', out) \<longrightarrow>
      rooms_nonempty s \<longrightarrow> rooms_nonempty s') \<and>
   (handle_create_room s sid draws username_field = Some (s1, out1) \<longrightarrow>
      (\<exists>new_id \<in> set draws. active_rooms s new_id = None \<and>
         active_rooms s1 new_id = Some new_room \<and> users new_room = [] \<and>
         out1 = [(To_sid sid, Room_created new_id)]))"
proof (intro conjI impI)
  assume "\<not> is_create ev" "step py s sid clock ev = Some (s', out)"
    "active_rooms s' room_id = Some r'" "users r' = []"
  then show "\<exists>r. active_rooms s room_id = Some r \<and> users r = []"
    using no_new_empty_step [of ev py s sid clock s' out] by (auto simp: no_new_empty_def)
next
  assume "\<not> is_create ev" "step py s sid clock ev = Some (s', out)" "rooms_nonempty s"
  then show "rooms_nonempty s'"
    using no_new_empty_step [of ev py s sid clock s' out]
    unfolding no_new_empty_def rooms_nonempty_def by (metis option.inject)
next
  assume "handle_create_room s sid draws username_field = Some (s1, out1)"
  then show "\<exists>new_id \<in> set draws. active_rooms s new_id = None \<and>
         active_rooms s1 new_id = Some new_room \<and> users new_room = [] \<and>
         out1 = [(To_sid sid, Room_created new_id)]"
    by (auto simp: handle_create_room_def new_room_def find_Some_iff split: option.splits)
qed

theorem rooms_keep_members_witness:
  "\<not> is_create (Leave_room (Some (Py_str ''X''))) \<and>
   step ascii empty_beside ''A'' fixed_clock (Leave_room (Some (Py_str ''X''))) =
     Some (handle_leave_room ascii empty_beside ''A'' fixed_clock (Some (Py_str ''X''))) \<and>
   active_rooms (fst (handle_leave_room ascii empty_beside ''A'' fixed_clock (Some (Py_str ''X'')))) ''ABC123'' =
     Some new_room \<and>
   users new_room = [] \<and>
   (\<exists>r. active_rooms empty_beside ''ABC123'' = Some r \<and> users r = []) \<and>
   step ascii alice_joined ''A'' fixed_clock (Leave_room (Some (Py_str ''X''))) =
     Some (handle_leave_room ascii alice_joined ''A'' fixed_clock (Some (Py_str ''X''))) \<and>
   rooms_nonempty alice_joined \<and>
   rooms_nonempty (fst (handle_leave_room ascii alice_joined ''A'' fixed_clock (Some (Py_str ''X'')))) \<and>
   handle_create_room alice_joined ''B'' [''X'', ''ABC123''] None =
     Some (empty_beside, [(To_sid ''B'', Room_created ''ABC123'')]) \<and>
   active_rooms alice_joined ''ABC123'' = None"
proof -
  have a: "active_rooms (fst (handle_leave_room ascii empty_beside ''A'' fixed_clock (Some (Py_str ''X''))))
             ''ABC123'' = Some new_room"
    by (simp add: handle_leave_room_def norm_X try_except_def lookup_member_def empty_beside_rooms
        active_rooms_add_system_message Let_def)
  show ?thesis
    using a
      rooms_keep_members [of "Leave_room (Some (Py_str ''X''))" ascii empty_beside "''A''" fixed_clock
        "fst (handle_leave_room ascii empty_beside ''A'' fixed_clock (Some (Py_str ''X'')))"
        "snd (handle_leave_room ascii empty_beside ''A'' fixed_clock (Some (Py_str ''X'')))"
        "''ABC123''" new_room "[]" None empty_beside "[]"]
      rooms_keep_members [of "Leave_room (Some (Py_str ''X''))" ascii alice_joined "''A''" fixed_clock
        "fst (handle_leave_room ascii alice_joined ''A'' fixed_clock (Some (Py_str ''X'')))"
        "snd (handle_leave_room ascii alice_joined ''A'' fixed_clock (Some (Py_str ''X'')))"
        "''ABC123''" new_room "[''X'', ''ABC123'']" None empty_beside
        "[(To_sid ''A'', Room_created ''ABC123'')]"]
      rooms_nonempty_alice_joined empty_beside_created
    by (simp add: new_room_def alice_joined_other)
qed

text \<open>
  The claim as the spec words it fails on \<open>create_room\<close>: on the empty store it leaves
  room \<open>ABC123\<close> in the store with no member.
\<close>

theorem create_room_counterexample:
  "handle_create_room init_state ''A'' [''ABC123''] (Some (Py_str ''alice'')) =
     Some (set_room ''ABC123'' new_room init_state, [(To_sid ''A'', Room_created ''ABC123'')]) \<and>
   map_option users (active_rooms (set_room ''ABC123'' new_room init_state) ''ABC123'') = Some []"
  by (simp add: handle_create_room_def init_state_def new_room_def)

subsection \<open>Display names\<close>







subsection \<open>The call flag and the participant list\<close>

lemma call_started_room:
  "active_rooms call_started ''X'' =
     Some \<lparr>users = [(''A'', ''alice''), (''B'', ''bob'')],
           messages = [System_msg ''alice has joined the room'' ''12:00'',
                       System_msg ''bob has joined the room'' ''12:00'',
                       System_msg ''alice started a video call'' ''12:00''],
           video_call = \<lparr>active = True, participants = [''A'']\<rparr>\<rparr>"
  by (simp add: call_started_def handle_start_video_call_def norm_X try_except_def lookup_member_def
      both_joined_room add_system_message_def set_participants_def set_active_def fixed_clock_def Let_def)

text \<open>
  C1 fails in the code. With alice and bob in room \<open>X\<close> and alice the only participant of
  the call, alice's \<open>leave_room\<close> takes her out of \<open>participants\<close> and leaves
  \<open>active\<close> set: the room stays, with an active call that nobody is in.
\<close>

theorem leave_room_leaves_call_active:
  "map_option video_call
     (active_rooms (fst (handle_leave_room ascii call_started ''A'' fixed_clock (Some (Py_str ''X'')))) ''X'') =
   Some \<lparr>active = True, participants = []\<rparr>"
  by (simp add: handle_leave_room_def norm_X try_except_def lookup_member_def call_started_room
      add_system_message_def set_participants_def sio_leave_def del_room_def fixed_clock_def Let_def)

text \<open>
  C6 fails in the code. \<open>start_video_call\<close> appends the caller to \<open>participants\<close> without
  looking whether it is there: alice starting the call a second time is in the list
  twice. Her \<open>leave_room\<close> then removes one of the two entries, and the list names a
  connection that is no longer among the room's users.
\<close>

theorem start_call_twice_duplicates:
  "map_option video_call
     (active_rooms (fst (handle_start_video_call ascii call_started ''A'' fixed_clock (Some (Py_str ''X'')))) ''X'') =
   Some \<lparr>active = True, participants = [''A'', ''A'']\<rparr> \<and>
   map_option (\<lambda>r. (map fst (users r), participants (video_call r)))
     (active_rooms (fst (handle_leave_room ascii
        (fst (handle_start_video_call ascii call_started ''A'' fixed_clock (Some (Py_str ''X''))))
        ''A'' fixed_clock (Some (Py_str ''X'')))) ''X'') =
   Some ([''B''], [''A''])"
  by (simp add: handle_leave_room_def handle_start_video_call_def norm_X try_except_def lookup_member_def
      call_started_room add_system_message_def set_participants_def set_active_def sio_leave_def
      del_room_def fixed_clock_def Let_def)

subsection \<open>Leaving the call twice\<close>

lemma left_call_once_room:
  "active_rooms left_call_once ''X'' =
     Some \<lparr>users = [(''A'', ''alice'')],
           messages = [System_msg ''alice has joined the room'' ''12:00'',
                       System_msg ''Video call ended'' ''12:00'',
                       System_msg ''alice left the video call'' ''12:00''],
           video_call = \<lparr>active = False, participants = []\<rparr>\<rparr>"
  by (simp add: left_call_once_def handle_leave_video_call_def norm_X try_except_def lookup_member_def
      alice_joined_room add_system_message_def set_active_def fixed_clock_def Let_def)

text \<open>
  C4 fails in the code. Alice, alone in room \<open>X\<close> where no call was ever started, sends
  \<open>leave_video_call\<close> twice. Already the first call announces "Video call ended" and
  "alice left the video call"; the second is not without effect: it appends the same two
  lines to the history again and emits \<open>video_call_ended\<close>, \<open>user_left_call\<close> and
  \<open>new_message\<close> again. \<open>handle_leave_room\<close> and \<open>handle_disconnect\<close> announce a leaver only
  when it is in \<open>participants\<close>; \<open>handle_leave_video_call\<close> has that test around the
  removal only.
\<close>

theorem leave_call_twice_repeats:
  "map_option messages (active_rooms alice_joined ''X'') =
     Some [System_msg ''alice has joined the room'' ''12:00''] \<and>
   map_option messages (active_rooms left_call_once ''X'') =
     Some [System_msg ''alice has joined the room'' ''12:00'',
           System_msg ''Video call ended'' ''12:00'',
           System_msg ''alice left the video call'' ''12:00''] \<and>
   map_option messages
     (active_rooms (fst (handle_leave_video_call ascii left_call_once ''A'' fixed_clock (Some (Py_str ''X'')))) ''X'') =
     Some [System_msg ''alice has joined the room'' ''12:00'',
           System_msg ''Video call ended'' ''12:00'',
           System_msg ''alice left the video call'' ''12:00'',
           System_msg ''Video call ended'' ''12:00'',
           System_msg ''alice left the video call'' ''12:00''] \<and>
   snd (handle_leave_video_call ascii left_call_once ''A'' fixed_clock (Some (Py_str ''X''))) =
     [(To_room ''X'', Video_call_ended), (To_room ''X'', User_left_call ''A'' ''alice''),
      (To_room ''X'', New_message (System_msg ''alice left the video call'' ''12:00''))]"
  by (simp add: handle_leave_video_call_def norm_X try_except_def lookup_member_def left_call_once_room
      alice_joined_room add_system_message_def set_active_def fixed_clock_def Let_def)

subsection \<open>The last member leaves\<close>

lemma own_room_joined_room:
  "active_rooms own_room_joined ''Q7XK2M9ZP4TB8WLC'' =
     Some \<lparr>users = [(''Q7XK2M9ZP4TB8WLC'', ''alice'')],
           messages = [System_msg ''alice has joined the room'' ''12:00''],
           video_call = \<lparr>active = False, participants = []\<rparr>\<rparr>"
  by (simp add: own_room_joined_def handle_join_room_def string_defs store_defs fixed_clock_def Let_def)

lemma own_room_joined_sio: "sio_rooms own_room_joined ''Q7XK2M9ZP4TB8WLC'' = {''Q7XK2M9ZP4TB8WLC''}"
  by (simp add: own_room_joined_def handle_join_room_def string_defs store_defs fixed_clock_def Let_def)

text \<open>
  C7 fails in the code. A connection whose sid is \<open>Q7XK2M9ZP4TB8WLC\<close> joins the room of
  that code and is its only member; the only broadcast room it is in is the one of that
  name, which is also its private room. When it disconnects, \<open>handle_disconnect\<close> leaves
  out the entry of \<open>rooms()\<close> that equals \<open>request.sid\<close>: nothing is emitted, and the room
  stays in the store with the disconnected connection among its users.
\<close>

theorem own_sid_room_not_cleaned:
  "map_option users (active_rooms own_room_joined ''Q7XK2M9ZP4TB8WLC'') =
     Some [(''Q7XK2M9ZP4TB8WLC'', ''alice'')] \<and>
   rooms_result own_room_joined ''Q7XK2M9ZP4TB8WLC'' [''Q7XK2M9ZP4TB8WLC''] \<and>
   handle_disconnect own_room_joined ''Q7XK2M9ZP4TB8WLC'' fixed_clock [''Q7XK2M9ZP4TB8WLC''] =
     (own_room_joined, []) \<and>
   map_option (\<lambda>p. map_option users (active_rooms (fst p) ''Q7XK2M9ZP4TB8WLC''))
     (step ascii own_room_joined ''Q7XK2M9ZP4TB8WLC'' fixed_clock (Disconnect [''Q7XK2M9ZP4TB8WLC''])) =
     Some (Some [(''Q7XK2M9ZP4TB8WLC'', ''alice'')])"
  by (simp add: own_room_joined_room own_room_joined_sio rooms_result_def handle_disconnect_def)

subsection \<open>History and broadcast messages\<close>




lemma extends_same [simp]: "extends h h sent \<longleftrightarrow> sent = []"
  by (auto simp: extends_def dest!: list_emb_Nil2)

lemma extends_append [simp]:
  "extends h (h @ added) sent \<longleftrightarrow>
     subseq (map erase_ts sent) (map erase_ts added) \<and>
     filter is_user_msg sent = filter is_user_msg added"
  by (auto simp: extends_def)

lemma extends_Nil [simp]:
  "extends [] added sent \<longleftrightarrow>
     subseq (map erase_ts sent) (map erase_ts added) \<and>
     filter is_user_msg sent = filter is_user_msg added"
  by (simp add: extends_def)


lemma new_messages_Nil [simp]: "new_messages room_id [] = []"
  by (simp add: new_messages_def)

lemma new_messages_append [simp]:
  "new_messages room_id (a @ b) = new_messages room_id a @ new_messages room_id b"
  by (simp add: new_messages_def)





















end
